theory Spec2Isabelle
  imports Main
begin

section \<open>The request proxy of the task-manager front end\<close>

text \<open>
  The development embeds \<^verbatim>\<open>frontend/app/api/proxy/[...path]/route.ts\<close>: the
  path rewrite at the head of \<^verbatim>\<open>handler\<close>, the construction of the outbound
  request, and the translation of the backend's answer (or of its absence) into the
  response of the proxy.

  A JavaScript string is a sequence of UTF-16 code units; here it is a \<^typ>\<open>string\<close>,
  one \<^typ>\<open>char\<close> standing for one code unit. Every pattern the handler looks for is ASCII.
\<close>

subsection \<open>String operations of the language\<close>

text \<open>\<^verbatim>\<open>xs.join(sep)\<close> on an array of strings.\<close>

fun join_str :: "string list \<Rightarrow> string \<Rightarrow> string" where
  "join_str [] sep = []"
| "join_str [s] sep = s"
| "join_str (s # t # ts) sep = s @ sep @ join_str (t # ts) sep"

text \<open>\<^verbatim>\<open>s.startsWith(p)\<close>.\<close>

definition startsWith :: "string \<Rightarrow> string \<Rightarrow> bool" where
  "startsWith s p = (take (length p) s = p)"

text \<open>\<^verbatim>\<open>s.includes(p)\<close>: \<open>p\<close> occurs in \<open>s\<close> at some position.\<close>

fun includes_str :: "string \<Rightarrow> string \<Rightarrow> bool" where
  "includes_str [] p = (p = [])"
| "includes_str (c # cs) p = (startsWith (c # cs) p \<or> includes_str cs p)"

text \<open>\<^verbatim>\<open>s.slice(n)\<close> for a start index \<open>n \<ge> 0\<close>: the empty string past the end.\<close>

definition slice :: "string \<Rightarrow> nat \<Rightarrow> string" where
  "slice s n = drop n s"

text \<open>
  \<^verbatim>\<open>s.replace(pat, rep)\<close> with a string pattern: the first occurrence of \<open>pat\<close>
  is replaced (the replacement texts of the handler contain no \<^verbatim>\<open>$\<close>), and a
  string without the pattern is returned as it is.
\<close>

fun replace_str :: "string \<Rightarrow> string \<Rightarrow> string \<Rightarrow> string" where
  "replace_str [] pat rep = (if pat = [] then rep else [])"
| "replace_str (c # cs) pat rep =
     (if startsWith (c # cs) pat then rep @ drop (length pat) (c # cs)
      else c # replace_str cs pat rep)"

text \<open>The number of positions of \<open>s\<close> at which \<open>p\<close> occurs.\<close>

fun occurrences :: "string \<Rightarrow> string \<Rightarrow> nat" where
  "occurrences [] p = (if p = [] then 1 else 0)"
| "occurrences (c # cs) p = (if startsWith (c # cs) p then 1 else 0) + occurrences cs p"

subsection \<open>The regular expressions of the rule table\<close>

text \<open>
  The three patterns of the handler are anchored at both ends (\<^verbatim>\<open>^\<close> ... \<^verbatim>\<open>$\<close>, no
  flags), so \<^verbatim>\<open>s.match(re)\<close> succeeds exactly when the whole of \<open>s\<close> is in the
  language of the expression between the anchors. \<^verbatim>\<open>\d\<close> without the unicode flag is
  \<^verbatim>\<open>[0-9]\<close>. Matching is by derivatives.
\<close>

definition is_digit :: "char \<Rightarrow> bool" where
  "is_digit c = (c \<in> set ''0123456789'')"

datatype regex =
    Never
  | Empty
  | Lit char
  | Digit
  | Cat regex regex
  | Alt regex regex
  | Rep regex

primrec nullable :: "regex \<Rightarrow> bool" where
  "nullable Never = False"
| "nullable Empty = True"
| "nullable (Lit c) = False"
| "nullable Digit = False"
| "nullable (Cat r s) = (nullable r \<and> nullable s)"
| "nullable (Alt r s) = (nullable r \<or> nullable s)"
| "nullable (Rep r) = True"

primrec deriv :: "char \<Rightarrow> regex \<Rightarrow> regex" where
  "deriv a Never = Never"
| "deriv a Empty = Never"
| "deriv a (Lit c) = (if a = c then Empty else Never)"
| "deriv a Digit = (if is_digit a then Empty else Never)"
| "deriv a (Cat r s) =
     (if nullable r then Alt (Cat (deriv a r) s) (deriv a s) else Cat (deriv a r) s)"
| "deriv a (Alt r s) = Alt (deriv a r) (deriv a s)"
| "deriv a (Rep r) = Cat (deriv a r) (Rep r)"

primrec matches :: "regex \<Rightarrow> string \<Rightarrow> bool" where
  "matches r [] = nullable r"
| "matches r (c # cs) = matches (deriv c r) cs"

text \<open>
  The language of an expression, against which the matcher is justified
  (\<open>matches_lang\<close> below).
\<close>

inductive_set star :: "string set \<Rightarrow> string set" for A :: "string set" where
  star_nil: "[] \<in> star A"
| star_app: "u \<in> A \<Longrightarrow> v \<in> star A \<Longrightarrow> u @ v \<in> star A"

primrec lang :: "regex \<Rightarrow> string set" where
  "lang Never = {}"
| "lang Empty = {[]}"
| "lang (Lit c) = {[c]}"
| "lang Digit = {[c] | c. is_digit c}"
| "lang (Cat r s) = {u @ v | u v. u \<in> lang r \<and> v \<in> lang s}"
| "lang (Alt r s) = lang r \<union> lang s"
| "lang (Rep r) = star (lang r)"

text \<open>A literal text, and \<^verbatim>\<open>r+\<close>.\<close>

primrec lits :: "string \<Rightarrow> regex" where
  "lits [] = Empty"
| "lits (c # cs) = Cat (Lit c) (lits cs)"

definition plus_re :: "regex \<Rightarrow> regex" where
  "plus_re r = Cat r (Rep r)"

text \<open>\<^verbatim>\<open>/^\/\d+\/chat$/\<close>, \<^verbatim>\<open>/^\/\d+\/new_conversation$/\<close> and
  \<^verbatim>\<open>/^\/conversations\/\d+\/\d+$/\<close>.\<close>

definition chat_re :: regex where
  "chat_re = Cat (Lit (CHR ''/'')) (Cat (plus_re Digit) (lits ''/chat''))"

definition new_conversation_re :: regex where
  "new_conversation_re = Cat (Lit (CHR ''/'')) (Cat (plus_re Digit) (lits ''/new_conversation''))"

definition conversations_re :: regex where
  "conversations_re =
     Cat (lits ''/conversations/'') (Cat (plus_re Digit) (Cat (Lit (CHR ''/'')) (plus_re Digit)))"

text \<open>
  The capture group \<^verbatim>\<open>(\d+)\<close> of \<^verbatim>\<open>/^\/(\d+)\/chat$/\<close> and of
  \<^verbatim>\<open>/^\/(\d+)\/new_conversation$/\<close>: the greedy run of digits after the leading slash.
  The character after the group is a slash, so no shorter run can match.
\<close>

definition group1 :: "string \<Rightarrow> string" where
  "group1 s = takeWhile is_digit (drop 1 s)"

text \<open>
  \<^verbatim>\<open>s.replace(/^\/(\d+)\/chat$/, '/api/v1/$1/chat')\<close>: the pattern spans the whole
  string, which is therefore replaced by the template with \<^verbatim>\<open>$1\<close> filled in; a string
  that does not match is returned unchanged. The second function is the same for
  \<^verbatim>\<open>new_conversation\<close>.
\<close>

definition replace_chat :: "string \<Rightarrow> string" where
  "replace_chat s = (if matches chat_re s then ''/api/v1/'' @ group1 s @ ''/chat'' else s)"

definition replace_new_conversation :: "string \<Rightarrow> string" where
  "replace_new_conversation s =
     (if matches new_conversation_re s then ''/api/v1/'' @ group1 s @ ''/new_conversation''
      else s)"

subsection \<open>The path rewrite\<close>

text \<open>
  Lines 29 to 69 of \<^verbatim>\<open>route.ts\<close>: \<^verbatim>\<open>transformedPath\<close> starts as the joined
  segments behind a slash and goes through one \<^verbatim>\<open>if\<close>/\<^verbatim>\<open>else if\<close> chain; the first
  branch whose test holds rewrites it.
\<close>

definition rewrite_rules :: "string \<Rightarrow> string" where
  "rewrite_rules transformedPath =
     (if matches chat_re transformedPath then replace_chat transformedPath
      else if matches new_conversation_re transformedPath
        then replace_new_conversation transformedPath
      else if matches conversations_re transformedPath then ''/api/v1'' @ transformedPath
      else if transformedPath = ''/me'' then ''/api/v1/auth/me''
      else if startsWith transformedPath ''/me/tasks'' then ''/api/v1'' @ transformedPath
      else if startsWith transformedPath ''/tasks'' then ''/api/v1'' @ transformedPath
      else if startsWith transformedPath ''/api/v1/''
        then ''/api/v1'' @ slice transformedPath 6
      else if startsWith transformedPath ''/api/''
        then replace_str transformedPath ''/api/'' ''/api/v1/''
      else if \<not> startsWith transformedPath ''/api/v1/'' then ''/api/v1'' @ transformedPath
      else transformedPath)"

definition rewritePath :: "string list \<Rightarrow> string" where
  "rewritePath path = rewrite_rules (''/'' @ join_str path ''/'')"

text \<open>
  The earlier revision of the same chain (\<^verbatim>\<open>unnamed/part_001\<close>, lines 28 to 65), which
  strips \<^verbatim>\<open>/me\<close> from task paths and tests for \<^verbatim>\<open>/api/v1/auth\<close> where the
  current one tests for \<^verbatim>\<open>/api/v1/\<close>.
\<close>

definition rewrite_rules_rev1 :: "string \<Rightarrow> string" where
  "rewrite_rules_rev1 transformedPath =
     (if matches chat_re transformedPath then replace_chat transformedPath
      else if matches new_conversation_re transformedPath
        then replace_new_conversation transformedPath
      else if matches conversations_re transformedPath then ''/api/v1'' @ transformedPath
      else if transformedPath = ''/me'' then ''/api/v1/auth/me''
      else if startsWith transformedPath ''/me/tasks''
        then ''/api/v1/tasks'' @ replace_str transformedPath ''/me/tasks'' []
      else if startsWith transformedPath ''/tasks'' then ''/api/v1'' @ transformedPath
      else if startsWith transformedPath ''/api/v1/auth'' then transformedPath
      else if startsWith transformedPath ''/api/''
        then replace_str transformedPath ''/api/'' ''/api/v1/''
      else if \<not> startsWith transformedPath ''/api/v1/'' then ''/api/v1'' @ transformedPath
      else transformedPath)"

subsection \<open>JSON values\<close>

text \<open>
  The values \<^verbatim>\<open>JSON.parse\<close> produces and \<^verbatim>\<open>NextResponse.json\<close> serialises. A number
  is kept as its decimal text (what \<^verbatim>\<open>String(n)\<close> prints), which is all the handler
  can observe of it; an object lists each key once.
\<close>

datatype json =
    JNull
  | JBool bool
  | JNum string
  | JStr string
  | JArr "json list"
  | JObj "(string \<times> json) list"

text \<open>What \<^verbatim>\<open>||\<close> and \<^verbatim>\<open>if\<close> take for true.\<close>

fun truthy :: "json \<Rightarrow> bool" where
  "truthy JNull = False"
| "truthy (JBool b) = b"
| "truthy (JNum n) = (n \<noteq> ''0'')"
| "truthy (JStr s) = (s \<noteq> [])"
| "truthy (JArr xs) = True"
| "truthy (JObj kvs) = True"

text \<open>
  \<^verbatim>\<open>v.name\<close> for one of the names \<^verbatim>\<open>detail\<close> and \<^verbatim>\<open>message\<close>: a TypeError on
  \<^verbatim>\<open>null\<close> (\<open>Inl\<close>), the member of an object, and \<^verbatim>\<open>undefined\<close> (\<open>None\<close>)
  on everything else.
\<close>

fun get_prop :: "json \<Rightarrow> string \<Rightarrow> string + json option" where
  "get_prop JNull name = Inl ''TypeError''"
| "get_prop (JObj kvs) name = Inr (map_of kvs name)"
| "get_prop v name = Inr None"

text \<open>\<^verbatim>\<open>a || b\<close> where \<open>a\<close> may be \<^verbatim>\<open>undefined\<close>.\<close>

definition js_or :: "json option \<Rightarrow> json \<Rightarrow> json" where
  "js_or a b = (case a of None \<Rightarrow> b | Some v \<Rightarrow> if truthy v then v else b)"

text \<open>
  The conversion to a string inside a template literal: an array prints its elements
  separated by commas, with nothing for \<^verbatim>\<open>null\<close>, and an object prints as
  \<^verbatim>\<open>[object Object]\<close>.
\<close>

fun to_display :: "json \<Rightarrow> string" where
  "to_display JNull = ''null''"
| "to_display (JBool b) = (if b then ''true'' else ''false'')"
| "to_display (JNum n) = n"
| "to_display (JStr s) = s"
| "to_display (JArr xs) =
     join_str (map (\<lambda>x. if x = JNull then [] else to_display x) xs) '',''"
| "to_display (JObj kvs) = ''[object Object]''"

subsection \<open>The surroundings of the handler\<close>

text \<open>
  The process environment, the session and the backend are inputs of the handler.
  \<^item> \<open>NODE_ENV\<close>, \<open>API_BASE_URL\<close> and \<open>NEXT_PUBLIC_API_BASE_URL\<close> are the environment
    variables, \<open>None\<close> when unset.
  \<^item> \<open>accessToken\<close> is \<^verbatim>\<open>session?.accessToken\<close> after \<^verbatim>\<open>getSessionServer()\<close>
    (of \<^verbatim>\<open>lib/auth\<close>, which is not among the sources, so its result is an input);
    \<open>None\<close> covers both a missing session and a session without a token.
  \<^item> \<open>fetch\<close> answers an outbound request: it throws (the text is
    \<^verbatim>\<open>fetchError.message\<close>, or \<^verbatim>\<open>String(fetchError)\<close>) or returns a response.
  \<^item> \<open>JSON_parse\<close> is \<^verbatim>\<open>JSON.parse\<close>, \<open>None\<close> when it throws.
  \<^item> \<open>status_error st\<close> is the message of the error that the runtime throws when a
    response is built with a status \<open>st\<close> that it refuses (see below).
  \<^item> \<open>now_iso k\<close> is the text of the \<open>k\<close>-th \<^verbatim>\<open>new Date().toISOString()\<close> of the
    request and \<open>tomorrow_iso\<close> that of \<^verbatim>\<open>new Date(Date.now() + 86400000)\<close>.
\<close>

record outbound =
  out_url :: string
  out_method :: string
  out_headers :: "(string \<times> string) list"
  out_body :: "string option"

record backend_response =
  res_status :: nat
  res_content_type :: "string option"
  res_text :: string

datatype fetch_result = FetchThrows string | FetchReturns backend_response

record env =
  NODE_ENV :: "string option"
  API_BASE_URL :: "string option"
  NEXT_PUBLIC_API_BASE_URL :: "string option"
  accessToken :: "string option"
  fetch :: "outbound \<Rightarrow> fetch_result"
  JSON_parse :: "string \<Rightarrow> json option"
  status_error :: "nat \<Rightarrow> string"
  now_iso :: "nat \<Rightarrow> string"
  tomorrow_iso :: string

text \<open>The inbound request: \<^verbatim>\<open>req.method\<close> and what \<^verbatim>\<open>req.text()\<close> yields.\<close>

record request =
  req_method :: string
  req_text :: string

text \<open>What the handler returns: \<^verbatim>\<open>NextResponse.json(value, {status})\<close> or
  \<^verbatim>\<open>new NextResponse(text, {status})\<close>.\<close>

datatype body = Json json | Text string

record response =
  status :: nat
  body :: body

text \<open>What the handler does to the outside, in order.\<close>

datatype event = SessionLookup | Fetch outbound

text \<open>\<^verbatim>\<open>res.ok\<close>.\<close>

definition ok :: "backend_response \<Rightarrow> bool" where
  "ok res = (200 \<le> res_status res \<and> res_status res \<le> 299)"

text \<open>
  \<^verbatim>\<open>NextResponse.json(value, {status})\<close> and \<^verbatim>\<open>new NextResponse(text, {status})\<close> go
  through the \<^verbatim>\<open>Response\<close> constructor of the runtime, always with a body. The
  constructor throws a RangeError for a status outside 200 to 599 and a TypeError for a
  body together with a null-body status (204, 205 and 304 inside that range). The
  handler passes the status of the backend on at lines 208, 215 and 218, so these calls
  can throw, into the outer \<^verbatim>\<open>catch\<close>. The statuses the handler writes itself (200, 500
  and 503) are accepted.
\<close>

definition status_accepted :: "nat \<Rightarrow> bool" where
  "status_accepted st = (200 \<le> st \<and> st \<le> 599 \<and> st \<noteq> 204 \<and> st \<noteq> 205 \<and> st \<noteq> 304)"

definition NextResponse :: "env \<Rightarrow> nat \<Rightarrow> body \<Rightarrow> string + response" where
  "NextResponse e st b =
     (if status_accepted st then Inr \<lparr>status = st, body = b\<rparr> else Inl (status_error e st))"

text \<open>
  Three things are taken to succeed: \<^verbatim>\<open>req.text()\<close>, \<^verbatim>\<open>getSessionServer()\<close> and
  \<^verbatim>\<open>res.text()\<close> return. The calls of \<^verbatim>\<open>console.log\<close> are left out.
\<close>

subsection \<open>The handler\<close>

definition isDevelopment :: "env \<Rightarrow> bool" where
  "isDevelopment e = (NODE_ENV e \<noteq> Some ''production'')"

text \<open>\<^verbatim>\<open>if (url) return url\<close>: an unset variable and an empty one are both skipped.\<close>

definition baseUrl :: "env \<Rightarrow> string option" where
  "baseUrl e =
     (case API_BASE_URL e of
        Some url \<Rightarrow> if url \<noteq> [] then Some url
          else (case NEXT_PUBLIC_API_BASE_URL e of
                  Some publicUrl \<Rightarrow> if publicUrl \<noteq> [] then Some publicUrl else None
                | None \<Rightarrow> None)
      | None \<Rightarrow>
          (case NEXT_PUBLIC_API_BASE_URL e of
             Some publicUrl \<Rightarrow> if publicUrl \<noteq> [] then Some publicUrl else None
           | None \<Rightarrow> None))"

text \<open>
  Lines 71 to 81: the two fixed headers, and the \<^verbatim>\<open>Authorization\<close> header unless the
  path is public. The second component records whether the session was looked up.
\<close>

definition base_headers :: "(string \<times> string) list" where
  "base_headers = [(''Accept'', ''application/json''), (''Content-Type'', ''application/json'')]"

definition session_token :: "env \<Rightarrow> string option" where
  "session_token e =
     (case accessToken e of
        Some t \<Rightarrow> if t \<noteq> [] then Some t
          else if isDevelopment e then Some ''mock-token'' else None
      | None \<Rightarrow> if isDevelopment e then Some ''mock-token'' else None)"

definition attach_auth :: "env \<Rightarrow> string \<Rightarrow> (string \<times> string) list \<times> event list" where
  "attach_auth e transformedPath =
     (let isPublicEndpoint = includes_str transformedPath ''/auth'' in
      if \<not> isPublicEndpoint then
        (case session_token e of
           Some token \<Rightarrow>
             (if token \<noteq> [] then base_headers @ [(''Authorization'', ''Bearer '' @ token)]
              else base_headers, [SessionLookup])
         | None \<Rightarrow> (base_headers, [SessionLookup]))
      else (base_headers, []))"

text \<open>
  The argument of \<^verbatim>\<open>fetch\<close> (lines 132 to 136), with \<^verbatim>\<open>requestBody\<close> as lines 24 to
  27 read it: the body text of the inbound request unless the method is \<^verbatim>\<open>GET\<close> or
  \<^verbatim>\<open>HEAD\<close>.
\<close>

definition outbound_request :: "env \<Rightarrow> request \<Rightarrow> string \<Rightarrow> string \<Rightarrow> outbound" where
  "outbound_request e req apiBaseUrl transformedPath =
     (let requestBody =
            (if req_method req \<noteq> ''GET'' \<and> req_method req \<noteq> ''HEAD'' then req_text req
             else [])
      in \<lparr>out_url = apiBaseUrl @ transformedPath,
          out_method = req_method req,
          out_headers = fst (attach_auth e transformedPath),
          out_body = (if req_method req = ''GET'' \<or> req_method req = ''HEAD'' then None
                      else Some requestBody)\<rparr>)"

text \<open>The sample tasks (the same literal at lines 89 and 146).\<close>

definition mockTasks :: "env \<Rightarrow> json" where
  "mockTasks e = JArr
     [JObj [(''id'', JNum ''1''),
            (''title'', JStr ''Sample Task''),
            (''description'', JStr ''This is a sample task for testing''),
            (''completed'', JBool False),
            (''createdAt'', JStr (now_iso e 0)),
            (''updatedAt'', JStr (now_iso e 1)),
            (''ownerId'', JNum ''1''),
            (''priority'', JStr ''medium''),
            (''dueDate'', JNull)],
      JObj [(''id'', JNum ''2''),
            (''title'', JStr ''Another Sample Task''),
            (''description'', JStr ''This is another sample task''),
            (''completed'', JBool False),
            (''createdAt'', JStr (now_iso e 2)),
            (''updatedAt'', JStr (now_iso e 3)),
            (''ownerId'', JNum ''1''),
            (''priority'', JStr ''high''),
            (''dueDate'', JStr (tomorrow_iso e))]]"

text \<open>The synthetic chat answer, which differs between its three uses in the text only.\<close>

definition chat_payload :: "string \<Rightarrow> json" where
  "chat_payload text = JObj
     [(''conversation_id'', JNum ''1''),
      (''response'', JStr text),
      (''has_tools_executed'', JBool False),
      (''tool_results'', JArr []),
      (''message_id'', JNull)]"

definition not_configured_text :: string where
  "not_configured_text =
     ''I'' @ [CHR 0x27] @ ''m in development mode without a backend connection, but I can still help! I have limited functionality, but you can ask me about task management. What would you like to do?''"

definition trouble_connecting_text :: string where
  "trouble_connecting_text =
     ''I'' @ [CHR 0x27] @ ''m having trouble connecting to the backend, but I'' @ [CHR 0x27] @ ''m still here to help! I can assist you with your tasks. What would you like to do?''"

definition backend_error_text :: "string \<Rightarrow> string" where
  "backend_error_text errorDetail =
     ''I encountered an issue processing your request. Error: '' @ errorDetail
     @ ''. But I'' @ [CHR 0x27] @ ''m still here to help! What would you like to do?''"

text \<open>
  Lines 189 to 194: the detail of a backend error. A body that does not parse, and a
  parsed \<^verbatim>\<open>null\<close> (whose member access throws inside the same \<^verbatim>\<open>try\<close>), leave the
  raw text.
\<close>

definition errorDetail_of :: "env \<Rightarrow> string \<Rightarrow> json" where
  "errorDetail_of e errorText =
     (case JSON_parse e errorText of
        None \<Rightarrow> JStr errorText
      | Some errorJson \<Rightarrow>
          (case get_prop errorJson ''detail'' of
             Inl err \<Rightarrow> JStr errorText
           | Inr detail \<Rightarrow>
               (case get_prop errorJson ''message'' of
                  Inl err \<Rightarrow> JStr errorText
                | Inr message \<Rightarrow> js_or detail (js_or message (JStr errorText)))))"

text \<open>
  Lines 188 to 218: the answer to a response of the backend, or the message of the error
  thrown while building it.
\<close>

definition translate_response :: "env \<Rightarrow> string \<Rightarrow> backend_response \<Rightarrow> string + response" where
  "translate_response e transformedPath res =
     (if \<not> ok res then
        (let errorDetail = errorDetail_of e (res_text res) in
         if includes_str transformedPath ''/chat''
         then Inr \<lparr>status = 200,
                   body = Json (chat_payload (backend_error_text (to_display errorDetail)))\<rparr>
         else NextResponse e (res_status res) (Json (JObj [(''error'', errorDetail)])))
      else
        (let contentType = (case res_content_type res of Some t \<Rightarrow> t | None \<Rightarrow> []) in
         if includes_str contentType ''application/json''
         then NextResponse e (res_status res)
                (Json (case JSON_parse e (res_text res) of Some j \<Rightarrow> j | None \<Rightarrow> JNull))
         else NextResponse e (res_status res) (Text (res_text res))))"

text \<open>
  The body of the outer \<^verbatim>\<open>try\<close> (lines 22 to 218): the events, and either the
  message of the error thrown, at line 185 or while building the response (\<open>Inl\<close>), or
  the response returned.
\<close>

definition handler_try :: "env \<Rightarrow> request \<Rightarrow> string list \<Rightarrow> event list \<times> (string + response)" where
  "handler_try e req path =
     (let transformedPath = rewritePath path;
          lookups = snd (attach_auth e transformedPath)
      in case baseUrl e of
           None \<Rightarrow>
             (lookups,
              if isDevelopment e \<and> includes_str transformedPath ''/tasks''
              then Inr \<lparr>status = 200, body = Json (JObj [(''items'', mockTasks e)])\<rparr>
              else if isDevelopment e \<and> includes_str transformedPath ''/chat''
              then Inr \<lparr>status = 200, body = Json (chat_payload not_configured_text)\<rparr>
              else Inr \<lparr>status = 503,
                        body = Json (JObj [(''error'', JStr ''API backend not configured'')])\<rparr>)
         | Some apiBaseUrl \<Rightarrow>
             (let out = outbound_request e req apiBaseUrl transformedPath in
              (lookups @ [Fetch out],
               case fetch e out of
                 FetchThrows msg \<Rightarrow>
                   if isDevelopment e \<and> includes_str transformedPath ''/tasks''
                   then Inr \<lparr>status = 200, body = Json (JObj [(''items'', mockTasks e)])\<rparr>
                   else if includes_str transformedPath ''/chat''
                   then Inr \<lparr>status = 200, body = Json (chat_payload trouble_connecting_text)\<rparr>
                   else Inl (''Failed to connect to backend: '' @ msg)
               | FetchReturns res \<Rightarrow> translate_response e transformedPath res)))"

text \<open>The handler: the outer \<^verbatim>\<open>catch\<close> (lines 219 to 224) turns an error into a 500.\<close>

definition handler :: "env \<Rightarrow> request \<Rightarrow> string list \<Rightarrow> event list \<times> response" where
  "handler e req path =
     (case handler_try e req path of
        (events, Inl msg) \<Rightarrow>
          (events,
           \<lparr>status = 500,
            body = Json (JObj [(''message'', JStr ''Proxy error occurred''),
                               (''error'', JStr msg)])\<rparr>)
      | (events, Inr resp) \<Rightarrow> (events, resp))"

text \<open>The member \<open>name\<close> of a JSON body that is an object, if there is one.\<close>

definition member :: "body \<Rightarrow> string \<Rightarrow> json option" where
  "member b name = (case b of Json (JObj kvs) \<Rightarrow> map_of kvs name | _ \<Rightarrow> None)"

subsection \<open>Sample inputs\<close>

text \<open>
  Concrete surroundings and requests, at which the theorems below are instantiated: a
  parser that knows the three bodies \<^verbatim>\<open>{"detail":"X"}\<close>, \<^verbatim>\<open>{"error":"E"}\<close> and
  \<^verbatim>\<open>{"detail":"","message":"M"}\<close>, an environment with a given mode, origin, session
  token and backend answer, a backend reply with each of the bodies, and two requests.
\<close>

definition sample_parse :: "string \<Rightarrow> json option" where
  \<open>sample_parse s =
     (if s = ''{"detail":"X"}'' then Some (JObj [(''detail'', JStr ''X'')])
      else if s = ''{"error":"E"}'' then Some (JObj [(''error'', JStr ''E'')])
      else if s = ''{"detail":"","message":"M"}''
        then Some (JObj [(''detail'', JStr []), (''message'', JStr ''M'')])
      else None)\<close>

definition sample_env :: "string option \<Rightarrow> string option \<Rightarrow> string option \<Rightarrow> fetch_result \<Rightarrow> env" where
  "sample_env mode origin token answer =
     \<lparr>NODE_ENV = mode, API_BASE_URL = origin, NEXT_PUBLIC_API_BASE_URL = None,
      accessToken = token, fetch = (\<lambda>out. answer), JSON_parse = sample_parse,
      status_error = (\<lambda>st. ''Invalid response status code''),
      now_iso = (\<lambda>k. ''2024-01-01T00:00:00.000Z''),
      tomorrow_iso = ''2024-01-02T00:00:00.000Z''\<rparr>"

definition error_reply :: "nat \<Rightarrow> backend_response" where
  \<open>error_reply st =
     \<lparr>res_status = st, res_content_type = Some ''application/json'',
      res_text = ''{"detail":"X"}''\<rparr>\<close>

definition other_reply :: "nat \<Rightarrow> backend_response" where
  \<open>other_reply st =
     \<lparr>res_status = st, res_content_type = Some ''application/json'',
      res_text = ''{"error":"E"}''\<rparr>\<close>

definition message_reply :: "nat \<Rightarrow> backend_response" where
  \<open>message_reply st =
     \<lparr>res_status = st, res_content_type = Some ''application/json'',
      res_text = ''{"detail":"","message":"M"}''\<rparr>\<close>

definition post_request :: request where
  "post_request = \<lparr>req_method = ''POST'', req_text = ''hello''\<rparr>"

definition get_request :: request where
  "get_request = \<lparr>req_method = ''GET'', req_text = ''hello''\<rparr>"

section \<open>Properties\<close>

subsection \<open>Strings and patterns\<close>

lemma startsWith_iff: "startsWith s p \<longleftrightarrow> (\<exists>b. s = p @ b)"
  unfolding startsWith_def
  by (metis append_eq_conv_conj append_take_drop_id)

lemma startsWith_append [simp]: "startsWith (p @ b) p"
  by (simp add: startsWith_def)

lemma includes_iff: "includes_str s p \<longleftrightarrow> (\<exists>a b. s = a @ p @ b)"
proof (induction s)
  case Nil
  then show ?case by auto
next
  case (Cons c cs)
  show ?case
  proof
    assume "includes_str (c # cs) p"
    then consider "startsWith (c # cs) p" | "includes_str cs p" by auto
    then show "\<exists>a b. c # cs = a @ p @ b"
    proof cases
      case 1
      then obtain b where "c # cs = p @ b" by (auto simp: startsWith_iff)
      then have "c # cs = [] @ p @ b" by simp
      then show ?thesis by blast
    next
      case 2
      then obtain a b where "cs = a @ p @ b" using Cons.IH by blast
      then have "c # cs = (c # a) @ p @ b" by simp
      then show ?thesis by blast
    qed
  next
    assume "\<exists>a b. c # cs = a @ p @ b"
    then obtain a b where ab: "c # cs = a @ p @ b" by blast
    show "includes_str (c # cs) p"
    proof (cases a)
      case Nil
      with ab have "startsWith (c # cs) p" by (simp add: startsWith_iff)
      then show ?thesis by simp
    next
      case (Cons x a')
      with ab have "cs = a' @ p @ b" by simp
      with Cons.IH show ?thesis by auto
    qed
  qed
qed

lemma nullable_lang: "nullable r \<longleftrightarrow> [] \<in> lang r"
  by (induction r) (auto intro: star.star_nil)

lemma star_cons_iff:
  "a # w \<in> star A \<longleftrightarrow> (\<exists>u v. w = u @ v \<and> a # u \<in> A \<and> v \<in> star A)"
proof
  assume "a # w \<in> star A"
  then show "\<exists>u v. w = u @ v \<and> a # u \<in> A \<and> v \<in> star A"
  proof (induction "a # w" rule: star.induct)
    case (star_app u v)
    show ?case
    proof (cases u)
      case Nil
      with star_app show ?thesis by simp
    next
      case (Cons x u')
      with star_app show ?thesis by auto
    qed
  qed
next
  assume "\<exists>u v. w = u @ v \<and> a # u \<in> A \<and> v \<in> star A"
  then obtain u v where "w = u @ v" "a # u \<in> A" "v \<in> star A" by blast
  then show "a # w \<in> star A" using star.star_app [of "a # u" A v] by simp
qed

lemma deriv_lang: "w \<in> lang (deriv a r) \<longleftrightarrow> a # w \<in> lang r"
proof (induction r arbitrary: w)
  case (Cat r s)
  show ?case
    by (auto simp: Cat nullable_lang Cons_eq_append_conv) 
next
  case (Rep r)
  show ?case by (auto simp: Rep star_cons_iff)
qed auto

lemma matches_lang: "matches r s \<longleftrightarrow> s \<in> lang r"
  by (induction s arbitrary: r) (auto simp: nullable_lang deriv_lang)


lemma lang_lits: "lang (lits t) = {t}"
  by (induction t) auto

lemma star_digits: "star {[c] | c. is_digit c} = {ds. list_all is_digit ds}"
proof (rule set_eqI, rule iffI)
  fix w assume "w \<in> star {[c] | c. is_digit c}"
  then show "w \<in> {ds. list_all is_digit ds}"
    by (induction rule: star.induct) auto
next
  fix w assume "w \<in> {ds. list_all is_digit ds}"
  then have "list_all is_digit w" by simp
  then show "w \<in> star {[c] | c. is_digit c}"
  proof (induction w)
    case Nil
    show ?case by (rule star.star_nil)
  next
    case (Cons c w)
    then have "[c] \<in> {[c] | c. is_digit c}" and "w \<in> star {[c] | c. is_digit c}" by auto
    then have "[c] @ w \<in> star {[c] | c. is_digit c}" by (rule star.star_app)
    then show ?case by simp
  qed
qed

lemma lang_plus_digit: "lang (plus_re Digit) = {ds. ds \<noteq> [] \<and> list_all is_digit ds}"
proof -
  have "lang (plus_re Digit) = {[c] @ v | c v. is_digit c \<and> list_all is_digit v}"
    by (simp add: plus_re_def star_digits) (auto intro: exI [of _ "[c]" for c])
  also have "\<dots> = {ds. ds \<noteq> [] \<and> list_all is_digit ds}"
  proof (rule set_eqI, rule iffI)
    fix w assume "w \<in> {ds. ds \<noteq> [] \<and> list_all is_digit ds}"
    then show "w \<in> {[c] @ v | c v. is_digit c \<and> list_all is_digit v}"
      by (cases w) auto
  qed auto
  finally show ?thesis .
qed

lemma matches_chat_re:
  "matches chat_re s \<longleftrightarrow> (\<exists>ds. ds \<noteq> [] \<and> list_all is_digit ds \<and> s = ''/'' @ ds @ ''/chat'')"
  unfolding matches_lang chat_re_def lang.simps lang_lits lang_plus_digit by auto

lemma matches_new_conversation_re:
  "matches new_conversation_re s \<longleftrightarrow>
     (\<exists>ds. ds \<noteq> [] \<and> list_all is_digit ds \<and> s = ''/'' @ ds @ ''/new_conversation'')"
  unfolding matches_lang new_conversation_re_def lang.simps lang_lits lang_plus_digit by auto

lemma matches_conversations_re:
  "matches conversations_re s \<longleftrightarrow>
     (\<exists>a b. a \<noteq> [] \<and> list_all is_digit a \<and> b \<noteq> [] \<and> list_all is_digit b
        \<and> s = ''/conversations/'' @ a @ ''/'' @ b)"
  unfolding matches_lang conversations_re_def lang.simps lang_lits lang_plus_digit by auto

lemma takeWhile_digits: "list_all is_digit ds \<Longrightarrow> takeWhile is_digit (ds @ CHR ''/'' # t) = ds"
  by (induction ds) (auto simp: is_digit_def)

lemma group1_digits: "list_all is_digit ds \<Longrightarrow> group1 (''/'' @ ds @ CHR ''/'' # t) = ds"
  by (simp add: group1_def takeWhile_digits)

subsection \<open>The path rewrite\<close>

lemma not_digit_slash: "\<not> is_digit (CHR ''/'')"
  by (simp add: is_digit_def)

lemma not_digit_a: "\<not> is_digit (CHR ''a'')"
  by (simp add: is_digit_def)

lemma occurrences_digits:
  "list_all is_digit n \<Longrightarrow> occurrences (n @ ''/chat'') ''/api/v1'' = 0"
proof (induction n)
  case Nil
  show ?case by (simp add: startsWith_def)
next
  case (Cons d n)
  then have "d \<noteq> CHR ''/''" using not_digit_slash by auto
  with Cons show ?case by (simp add: startsWith_def)
qed

lemma occurrences_chat:
  assumes "n \<noteq> []" and "list_all is_digit n"
  shows "occurrences (''/api/v1/'' @ n @ ''/chat'') ''/api/v1'' = 1"
proof -
  obtain d n' where n: "n = d # n'" using assms(1) by (cases n) auto
  with assms(2) have "d \<noteq> CHR ''a''" using not_digit_a by auto
  then have "occurrences (''/api/v1/'' @ n @ ''/chat'') ''/api/v1''
      = Suc (occurrences (n @ ''/chat'') ''/api/v1'')"
    by (simp add: startsWith_def n)
  with assms(2) show ?thesis by (simp add: occurrences_digits)
qed

lemma rewrite_rules_chat:
  assumes "n \<noteq> []" and "list_all is_digit n"
  shows "rewrite_rules (''/'' @ n @ ''/chat'') = ''/api/v1/'' @ n @ ''/chat''"
proof -
  have m: "matches chat_re (''/'' @ n @ ''/chat'')"
    unfolding matches_chat_re using assms by blast
  have "group1 (''/'' @ n @ CHR ''/'' # ''chat'') = n"
    using assms(2) by (rule group1_digits)
  then have "group1 (''/'' @ n @ ''/chat'') = n" by simp
  with m show ?thesis by (simp add: rewrite_rules_def replace_chat_def)
qed

text \<open>
  Claim C3. An inbound path \<^verbatim>\<open>/{n}/chat\<close> with \<open>n\<close> a non-empty string of digits is
  rewritten to \<^verbatim>\<open>/api/v1/{n}/chat\<close>, in which \<^verbatim>\<open>/api/v1\<close> occurs exactly once.
\<close>

theorem chat_path_rewritten_once:
  assumes "n \<noteq> []" and "list_all is_digit n" and "join_str path ''/'' = n @ ''/chat''"
  shows "rewritePath path = ''/api/v1/'' @ n @ ''/chat''
     \<and> occurrences (rewritePath path) ''/api/v1'' = 1"
proof -
  have "rewritePath path = ''/api/v1/'' @ n @ ''/chat''"
    using rewrite_rules_chat [OF assms(1,2)] assms(3) by (simp add: rewritePath_def)
  moreover have "occurrences (''/api/v1/'' @ n @ ''/chat'') ''/api/v1'' = 1"
    using assms(1,2) by (rule occurrences_chat)
  ultimately show ?thesis by simp
qed

theorem chat_path_rewritten_once_witness:
  "list_all is_digit ''42'' \<and> join_str [''42'', ''chat''] ''/'' = ''42/chat''
     \<and> rewritePath [''42'', ''chat''] = ''/api/v1/42/chat''
     \<and> occurrences (rewritePath [''42'', ''chat'']) ''/api/v1'' = 1"
proof -
  have h1: "''42'' \<noteq> []" by simp
  have h2: "list_all is_digit ''42''" by (simp add: is_digit_def)
  have h3: "join_str [''42'', ''chat''] ''/'' = ''42'' @ ''/chat''" by simp
  note r = chat_path_rewritten_once [OF h1 h2 h3]
  have j: "join_str [''42'', ''chat''] ''/'' = ''42/chat''" by simp
  have p: "rewritePath [''42'', ''chat''] = ''/api/v1/42/chat''"
    using conjunct1 [OF r] by simp
  show ?thesis using h2 j p conjunct2 [OF r] by blast
qed

lemma replace_api_prefix:
  assumes "startsWith s ''/api/''"
  shows "replace_str s ''/api/'' ''/api/v1/'' = ''/api/v1/'' @ drop 5 s"
proof -
  obtain b where "s = ''/api/'' @ b" using assms by (auto simp: startsWith_iff)
  then show ?thesis by (simp add: startsWith_def)
qed

lemma rewrite_rules_prefixed: "startsWith (rewrite_rules s) ''/api/v1''"
  by (simp add: rewrite_rules_def replace_chat_def replace_new_conversation_def
      replace_api_prefix) (simp add: startsWith_def)

text \<open>
  Claim C10. Whatever the segment list (empty or not), the rewritten path begins with
  \<^verbatim>\<open>/api/v1\<close>.
\<close>

theorem rewritten_path_prefixed: "startsWith (rewritePath path) ''/api/v1''"
  unfolding rewritePath_def by (rule rewrite_rules_prefixed)

lemma api_v1_no_earlier_rule:
  assumes "startsWith s ''/api/v1/''"
  shows "\<not> matches chat_re s" and "\<not> matches new_conversation_re s"
    and "\<not> matches conversations_re s" and "s \<noteq> ''/me''"
    and "\<not> startsWith s ''/me/tasks''" and "\<not> startsWith s ''/tasks''"
proof -
  obtain b where s: "s = ''/api/v1/'' @ b" using assms by (auto simp: startsWith_iff)
  have nd: "\<And>ds t. ds \<noteq> [] \<Longrightarrow> list_all is_digit ds \<Longrightarrow> ''api/v1/'' @ b \<noteq> ds @ t"
  proof
    fix ds t assume "ds \<noteq> []" "list_all is_digit ds" "''api/v1/'' @ b = ds @ t"
    then show False using not_digit_a by (cases ds) auto
  qed
  show "\<not> matches chat_re s"
    unfolding matches_chat_re s using nd by auto
  show "\<not> matches new_conversation_re s"
    unfolding matches_new_conversation_re s using nd by auto
  show "\<not> matches conversations_re s"
    unfolding matches_conversations_re s by auto
  show "s \<noteq> ''/me''" using s by simp
  show "\<not> startsWith s ''/me/tasks''" using s by (simp add: startsWith_def)
  show "\<not> startsWith s ''/tasks''" using s by (simp add: startsWith_def)
qed

lemma rewrite_rules_api_v1:
  assumes "startsWith s ''/api/v1/''"
  shows "rewrite_rules s = ''/api/v11/'' @ drop 8 s"
proof -
  obtain b where s: "s = ''/api/v1/'' @ b" using assms by (auto simp: startsWith_iff)
  have "rewrite_rules s = ''/api/v1'' @ slice s 6"
    using api_v1_no_earlier_rule [OF assms] assms by (simp add: rewrite_rules_def)
  then show ?thesis by (simp add: s slice_def)
qed

text \<open>
  The branch for paths that begin with \<^verbatim>\<open>/api/v1/\<close> is meant to strip the prefix and
  put it back (the comment at line 59). The prefix has seven characters and
  \<^verbatim>\<open>slice(6)\<close> drops six, so the digit stays and is doubled: every such path is changed.
\<close>

lemma rewritePath_api_v1:
  assumes "startsWith (''/'' @ join_str path ''/'') ''/api/v1/''"
  shows "rewritePath path \<noteq> ''/'' @ join_str path ''/''"
proof -
  obtain b where s: "''/'' @ join_str path ''/'' = ''/api/v1/'' @ b"
    using assms by (auto simp: startsWith_iff)
  have "rewritePath path = ''/api/v11/'' @ drop 8 (''/'' @ join_str path ''/'')"
    unfolding rewritePath_def using assms by (rule rewrite_rules_api_v1)
  then show ?thesis unfolding s by simp
qed

text \<open>
  Claim C1. The claim is that the segments \<^verbatim>\<open>api\<close>, \<^verbatim>\<open>v1\<close>, \<^verbatim>\<open>tasks\<close> are rewritten to
  \<^verbatim>\<open>/api/v1/tasks\<close>. The handler produces \<^verbatim>\<open>/api/v11/tasks\<close>.
\<close>

theorem api_v1_tasks_rewritten:
  "rewritePath [''api'', ''v1'', ''tasks''] = ''/api/v11/tasks''"
  by (simp add: rewritePath_def rewrite_rules_def chat_re_def new_conversation_re_def
      conversations_re_def plus_re_def startsWith_def slice_def is_digit_def)

text \<open>
  Claim C2. The claim is that a path that begins with \<^verbatim>\<open>/api/v1/auth\<close> is left as it is.
  The handler turns \<^verbatim>\<open>/api/v1/auth/login\<close> into \<^verbatim>\<open>/api/v11/auth/login\<close>.
\<close>

theorem api_v1_auth_rewritten:
  "rewritePath [''api'', ''v1'', ''auth'', ''login''] = ''/api/v11/auth/login''"
  by (simp add: rewritePath_def rewrite_rules_def chat_re_def new_conversation_re_def
      conversations_re_def plus_re_def startsWith_def slice_def is_digit_def)

text \<open>
  The earlier revision did leave these paths alone, and the current one never produces
  a path that begins with \<^verbatim>\<open>/api/v1/api/v1/\<close>.
\<close>

lemma rewrite_rules_rev1_auth:
  assumes "startsWith s ''/api/v1/auth''"
  shows "rewrite_rules_rev1 s = s"
proof -
  obtain b where "s = ''/api/v1/auth'' @ b" using assms by (auto simp: startsWith_iff)
  then have "startsWith s ''/api/v1/''" by (simp add: startsWith_def)
  from api_v1_no_earlier_rule [OF this] assms show ?thesis
    by (simp add: rewrite_rules_rev1_def)
qed

lemma rewrite_rules_no_double_prefix:
  assumes "startsWith s ''/api/v1/''"
  shows "\<not> startsWith (rewrite_rules s) ''/api/v1/api/v1/''"
  unfolding rewrite_rules_api_v1 [OF assms] by (simp add: startsWith_def)

subsection \<open>The handler\<close>

lemmas rewrite_eval = rewritePath_def rewrite_rules_def chat_re_def new_conversation_re_def
  conversations_re_def plus_re_def startsWith_def slice_def is_digit_def replace_chat_def
  replace_new_conversation_def group1_def

lemmas sample_eval = sample_env_def sample_parse_def error_reply_def other_reply_def
  message_reply_def post_request_def get_request_def baseUrl_def isDevelopment_def ok_def

lemma attach_auth_headers:
  "map_of (fst (attach_auth e tp)) ''Authorization'' =
     (if includes_str tp ''/auth'' then None
      else map_option (\<lambda>t. ''Bearer '' @ t) (session_token e))"
  by (auto simp: attach_auth_def session_token_def base_headers_def Let_def split: option.splits)

lemma attach_auth_lookup:
  "snd (attach_auth e tp) = (if includes_str tp ''/auth'' then [] else [SessionLookup])"
  by (auto simp: attach_auth_def Let_def split: option.splits)

lemma handler_events:
  "fst (handler e req path) =
     snd (attach_auth e (rewritePath path))
     @ (case baseUrl e of None \<Rightarrow> []
        | Some url \<Rightarrow> [Fetch (outbound_request e req url (rewritePath path))])"
  by (simp add: handler_def handler_try_def Let_def split: option.split fetch_result.split sum.split)

lemma handler_no_origin:
  assumes "baseUrl e = None"
  shows "handler_try e req path =
     (snd (attach_auth e (rewritePath path)),
      Inr (if isDevelopment e \<and> includes_str (rewritePath path) ''/tasks''
           then \<lparr>status = 200, body = Json (JObj [(''items'', mockTasks e)])\<rparr>
           else if isDevelopment e \<and> includes_str (rewritePath path) ''/chat''
           then \<lparr>status = 200, body = Json (chat_payload not_configured_text)\<rparr>
           else \<lparr>status = 503,
                 body = Json (JObj [(''error'', JStr ''API backend not configured'')])\<rparr>))"
  using assms by (simp add: handler_try_def Let_def)

lemma handler_fetch_returns:
  assumes "baseUrl e = Some url"
    and "fetch e (outbound_request e req url (rewritePath path)) = FetchReturns res"
  shows "snd (handler_try e req path) = translate_response e (rewritePath path) res"
  using assms by (simp add: handler_try_def Let_def)

lemma handler_of_thrown:
  "snd (handler_try e req path) = Inl msg \<Longrightarrow>
     snd (handler e req path)
       = \<lparr>status = 500,
          body = Json (JObj [(''message'', JStr ''Proxy error occurred''),
                             (''error'', JStr msg)])\<rparr>"
  by (cases "handler_try e req path") (simp add: handler_def)

lemma handler_fetch_throws:
  assumes "baseUrl e = Some url"
    and "fetch e (outbound_request e req url (rewritePath path)) = FetchThrows msg"
  shows "snd (handler_try e req path) =
     (if isDevelopment e \<and> includes_str (rewritePath path) ''/tasks''
      then Inr \<lparr>status = 200, body = Json (JObj [(''items'', mockTasks e)])\<rparr>
      else if includes_str (rewritePath path) ''/chat''
      then Inr \<lparr>status = 200, body = Json (chat_payload trouble_connecting_text)\<rparr>
      else Inl (''Failed to connect to backend: '' @ msg))"
  using assms by (simp add: handler_try_def Let_def)

lemma handler_of_try:
  "snd (handler_try e req path) = Inr resp \<Longrightarrow> snd (handler e req path) = resp"
  by (cases "handler_try e req path") (simp add: handler_def)

lemma fetch_event:
  assumes "Fetch out \<in> set (fst (handler e req path))"
  shows "\<exists>url. baseUrl e = Some url \<and> out = outbound_request e req url (rewritePath path)"
proof (cases "baseUrl e")
  case None
  with assms show ?thesis
    by (auto simp: handler_events attach_auth_lookup split: if_splits)
next
  case (Some url)
  with assms have "out = outbound_request e req url (rewritePath path)"
    by (auto simp: handler_events attach_auth_lookup split: if_splits)
  with Some show ?thesis by blast
qed

lemma fetch_is_sent:
  "baseUrl e = Some url \<Longrightarrow>
     Fetch (outbound_request e req url (rewritePath path)) \<in> set (fst (handler e req path))"
  by (simp add: handler_events)

lemma includes_middle: "includes_str (a @ p @ b) p"
  unfolding includes_iff by blast

lemma includes_empty: "includes_str s []"
  by (induction s) (simp_all add: startsWith_def)

lemma backend_error_text_includes: "includes_str (backend_error_text t) t"
  unfolding backend_error_text_def by (rule includes_middle)

text \<open>
  Claim C4. With an origin configured, a backend reply that is not 2xx and whose body
  parses to an object with the one member \<^verbatim>\<open>detail\<close>, the string \<open>X\<close>, on a path that
  contains \<^verbatim>\<open>/chat\<close>: the handler answers 200 with the five members of the synthetic
  chat payload, and \<open>X\<close> occurs in the string that is its \<^verbatim>\<open>response\<close> member.
\<close>

theorem chat_backend_error_masked:
  assumes "baseUrl e = Some url"
    and "fetch e (outbound_request e req url (rewritePath path)) = FetchReturns res"
    and "\<not> ok res"
    and "JSON_parse e (res_text res) = Some (JObj [(''detail'', JStr X)])"
    and "includes_str (rewritePath path) ''/chat''"
  shows "\<exists>text. snd (handler e req path)
             = \<lparr>status = 200,
                body = Json (JObj [(''conversation_id'', JNum ''1''),
                                   (''response'', JStr text),
                                   (''has_tools_executed'', JBool False),
                                   (''tool_results'', JArr []),
                                   (''message_id'', JNull)])\<rparr>
           \<and> member (body (snd (handler e req path))) ''response'' = Some (JStr text)
           \<and> includes_str text X"
proof -
  let ?d = "errorDetail_of e (res_text res)"
  let ?t = "backend_error_text (to_display ?d)"
  have "snd (handler_try e req path) = Inr \<lparr>status = 200, body = Json (chat_payload ?t)\<rparr>"
    using assms by (simp add: handler_fetch_returns translate_response_def)
  then have r: "snd (handler e req path)
      = \<lparr>status = 200,
         body = Json (JObj [(''conversation_id'', JNum ''1''),
                            (''response'', JStr ?t),
                            (''has_tools_executed'', JBool False),
                            (''tool_results'', JArr []),
                            (''message_id'', JNull)])\<rparr>"
    unfolding chat_payload_def by (rule handler_of_try)
  then have m: "member (body (snd (handler e req path))) ''response'' = Some (JStr ?t)"
    by (simp add: member_def)
  have "?d = (if X \<noteq> [] then JStr X else JStr (res_text res))"
    using assms(4) by (simp add: errorDetail_of_def js_or_def)
  then have "includes_str ?t X"
    by (cases "X = []") (simp_all add: includes_empty backend_error_text_includes)
  with r m show ?thesis by blast
qed

text \<open>Claim C4 at a reply with status 500 and the body \<^verbatim>\<open>{"detail":"X"}\<close>.\<close>

theorem chat_backend_error_masked_witness:
  "\<exists>text. snd (handler (sample_env None (Some ''http://backend'') None
                          (FetchReturns (error_reply 500)))
                       post_request [''7'', ''chat''])
             = \<lparr>status = 200,
                body = Json (JObj [(''conversation_id'', JNum ''1''),
                                   (''response'', JStr text),
                                   (''has_tools_executed'', JBool False),
                                   (''tool_results'', JArr []),
                                   (''message_id'', JNull)])\<rparr>
           \<and> member (body (snd (handler (sample_env None (Some ''http://backend'') None
                                          (FetchReturns (error_reply 500)))
                                       post_request [''7'', ''chat'']))) ''response''
               = Some (JStr text)
           \<and> includes_str text ''X''"
proof -
  let ?e = "sample_env None (Some ''http://backend'') None (FetchReturns (error_reply 500))"
  have h1: "baseUrl ?e = Some ''http://backend''" by (simp add: sample_eval)
  have h2: "fetch ?e (outbound_request ?e post_request ''http://backend''
              (rewritePath [''7'', ''chat''])) = FetchReturns (error_reply 500)"
    by (simp add: sample_env_def)
  have h3: "\<not> ok (error_reply 500)" by (simp add: sample_eval)
  have h4: "JSON_parse ?e (res_text (error_reply 500)) = Some (JObj [(''detail'', JStr ''X'')])"
    by (simp add: sample_eval)
  have h5: "includes_str (rewritePath [''7'', ''chat'']) ''/chat''"
    by (simp add: rewrite_eval)
  show ?thesis by (rule chat_backend_error_masked [OF h1 h2 h3 h4 h5])
qed

text \<open>The extraction of the detail (line 193), case by case.\<close>

lemma detail_unparsed: "JSON_parse e t = None \<Longrightarrow> errorDetail_of e t = JStr t"
  by (simp add: errorDetail_of_def)

lemma detail_not_object:
  "JSON_parse e t = Some v \<Longrightarrow> \<forall>kvs. v \<noteq> JObj kvs \<Longrightarrow> errorDetail_of e t = JStr t"
  by (cases v) (simp_all add: errorDetail_of_def js_or_def)

lemma detail_object:
  "JSON_parse e t = Some (JObj kvs) \<Longrightarrow>
     errorDetail_of e t = js_or (map_of kvs ''detail'') (js_or (map_of kvs ''message'') (JStr t))"
  by (simp add: errorDetail_of_def)

lemma detail_from_detail:
  "JSON_parse e t = Some (JObj kvs) \<Longrightarrow> map_of kvs ''detail'' = Some d \<Longrightarrow> truthy d
     \<Longrightarrow> errorDetail_of e t = d"
  by (simp add: detail_object js_or_def)

lemma detail_from_message:
  "JSON_parse e t = Some (JObj kvs)
     \<Longrightarrow> map_of kvs ''detail'' = None \<or> (\<exists>d. map_of kvs ''detail'' = Some d \<and> \<not> truthy d)
     \<Longrightarrow> map_of kvs ''message'' = Some m \<Longrightarrow> truthy m
     \<Longrightarrow> errorDetail_of e t = m"
  by (auto simp: detail_object js_or_def)

lemma detail_from_text:
  "JSON_parse e t = Some (JObj kvs)
     \<Longrightarrow> map_of kvs ''detail'' = None \<or> (\<exists>d. map_of kvs ''detail'' = Some d \<and> \<not> truthy d)
     \<Longrightarrow> map_of kvs ''message'' = None \<or> (\<exists>m. map_of kvs ''message'' = Some m \<and> \<not> truthy m)
     \<Longrightarrow> errorDetail_of e t = JStr t"
  by (auto simp: detail_object js_or_def)


lemma handler_backend_error:
  assumes "baseUrl e = Some url"
    and "fetch e (outbound_request e req url (rewritePath path)) = FetchReturns res"
    and "\<not> ok res"
    and "\<not> includes_str (rewritePath path) ''/chat''"
  shows "snd (handler_try e req path)
       = NextResponse e (res_status res)
           (Json (JObj [(''error'', errorDetail_of e (res_text res))]))"
  using assms by (simp add: handler_fetch_returns translate_response_def)

lemma handler_backend_error_accepted:
  assumes "baseUrl e = Some url"
    and "fetch e (outbound_request e req url (rewritePath path)) = FetchReturns res"
    and "\<not> ok res"
    and "\<not> includes_str (rewritePath path) ''/chat''"
    and "status_accepted (res_status res)"
  shows "snd (handler e req path)
       = \<lparr>status = res_status res,
          body = Json (JObj [(''error'', errorDetail_of e (res_text res))])\<rparr>"
proof (rule handler_of_try)
  show "snd (handler_try e req path)
       = Inr \<lparr>status = res_status res,
              body = Json (JObj [(''error'', errorDetail_of e (res_text res))])\<rparr>"
    using assms(5) by (simp add: handler_backend_error [OF assms(1-4)] NextResponse_def)
qed

lemma handler_backend_error_refused:
  assumes "baseUrl e = Some url"
    and "fetch e (outbound_request e req url (rewritePath path)) = FetchReturns res"
    and "\<not> ok res"
    and "\<not> includes_str (rewritePath path) ''/chat''"
    and "\<not> status_accepted (res_status res)"
  shows "snd (handler e req path)
       = \<lparr>status = 500,
          body = Json (JObj [(''message'', JStr ''Proxy error occurred''),
                             (''error'', JStr (status_error e (res_status res)))])\<rparr>"
proof (rule handler_of_thrown)
  show "snd (handler_try e req path) = Inl (status_error e (res_status res))"
    using assms(5) by (simp add: handler_backend_error [OF assms(1-4)] NextResponse_def)
qed

text \<open>
  Claim C5, as stated, fails twice. The body \<^verbatim>\<open>{"error":"E"}\<close> parses as JSON and has
  neither a \<^verbatim>\<open>detail\<close> nor a \<^verbatim>\<open>message\<close> member, and the \<^verbatim>\<open>error\<close> member of the
  answer is the raw text, which the claim gives to bodies that do not parse only. And a
  reply with status 304 is answered with status 500, because no response with a body can
  be built with 304.
\<close>

theorem backend_error_detail_counterexample:
  \<open>\<not> ok (other_reply 404)
   \<and> \<not> includes_str (rewritePath [''items'', ''9'']) ''/chat''
   \<and> JSON_parse (sample_env None (Some ''http://backend'') None (FetchReturns (other_reply 404)))
        (res_text (other_reply 404)) = Some (JObj [(''error'', JStr ''E'')])
   \<and> snd (handler (sample_env None (Some ''http://backend'') None
                     (FetchReturns (other_reply 404)))
                  get_request [''items'', ''9''])
       = \<lparr>status = 404, body = Json (JObj [(''error'', JStr ''{"error":"E"}'')])\<rparr>
   \<and> \<not> ok (error_reply 304)
   \<and> status (snd (handler (sample_env None (Some ''http://backend'') None
                             (FetchReturns (error_reply 304)))
                          get_request [''items'', ''9''])) = 500\<close>
proof -
  let ?e = "sample_env None (Some ''http://backend'') None (FetchReturns (other_reply 404))"
  let ?f = "sample_env None (Some ''http://backend'') None (FetchReturns (error_reply 304))"
  have h1: "baseUrl ?e = Some ''http://backend''" "baseUrl ?f = Some ''http://backend''"
    by (simp_all add: sample_eval)
  have h2: "fetch ?e (outbound_request ?e get_request ''http://backend''
              (rewritePath [''items'', ''9''])) = FetchReturns (other_reply 404)"
    "fetch ?f (outbound_request ?f get_request ''http://backend''
              (rewritePath [''items'', ''9''])) = FetchReturns (error_reply 304)"
    by (simp_all add: sample_env_def)
  have h3: "\<not> ok (other_reply 404)" "\<not> ok (error_reply 304)" by (simp_all add: sample_eval)
  have h4: "\<not> includes_str (rewritePath [''items'', ''9'']) ''/chat''"
    by (simp add: rewrite_eval)
  have h5: "status_accepted (res_status (other_reply 404))"
    "\<not> status_accepted (res_status (error_reply 304))"
    by (simp_all add: status_accepted_def other_reply_def error_reply_def)
  have p: "JSON_parse ?e (res_text (other_reply 404)) = Some (JObj [(''error'', JStr ''E'')])"
    by (simp add: sample_eval)
  have d: "errorDetail_of ?e (res_text (other_reply 404)) = JStr (res_text (other_reply 404))"
    by (rule detail_from_text [OF p]) simp_all
  have "snd (handler ?e get_request [''items'', ''9''])
      = \<lparr>status = res_status (other_reply 404),
         body = Json (JObj [(''error'', JStr (res_text (other_reply 404)))])\<rparr>"
    unfolding handler_backend_error_accepted [OF h1(1) h2(1) h3(1) h4 h5(1)] d ..
  also have \<open>\<dots> = \<lparr>status = 404, body = Json (JObj [(''error'', JStr ''{"error":"E"}'')])\<rparr>\<close>
    by (simp add: other_reply_def)
  finally have a: \<open>snd (handler ?e get_request [''items'', ''9''])
      = \<lparr>status = 404, body = Json (JObj [(''error'', JStr ''{"error":"E"}'')])\<rparr>\<close> .
  have b: "status (snd (handler ?f get_request [''items'', ''9''])) = 500"
    unfolding handler_backend_error_refused [OF h1(2) h2(2) h3(2) h4 h5(2)] by simp
  from h3 h4 p a b show ?thesis by blast
qed

text \<open>
  Claim C5, amended. With an origin configured, a backend reply that is not 2xx on a path
  that does not contain \<^verbatim>\<open>/chat\<close>: when a response with a body can be built with the
  status of the backend (a status from 200 to 599 other than 204, 205 and 304), the
  handler answers with that status and the object whose one member \<^verbatim>\<open>error\<close> is the
  extracted detail; with any other status it answers 500 with the proxy error. The
  detail is the member \<^verbatim>\<open>detail\<close> of the parsed body if that is truthy, otherwise its
  member \<^verbatim>\<open>message\<close> if that is truthy, and otherwise the raw text: when neither
  member is truthy, when the body parses to something that is not an object, and when
  it does not parse.
\<close>

theorem backend_error_status_preserved:
  assumes "baseUrl e = Some url"
    and "fetch e (outbound_request e req url (rewritePath path)) = FetchReturns res"
    and "\<not> ok res"
    and "\<not> includes_str (rewritePath path) ''/chat''"
  shows "(status_accepted (res_status res)
          \<longrightarrow> snd (handler e req path)
              = \<lparr>status = res_status res,
                 body = Json (JObj [(''error'', errorDetail_of e (res_text res))])\<rparr>)
     \<and> (\<not> status_accepted (res_status res)
          \<longrightarrow> snd (handler e req path)
              = \<lparr>status = 500,
                 body = Json (JObj [(''message'', JStr ''Proxy error occurred''),
                                    (''error'', JStr (status_error e (res_status res)))])\<rparr>)
     \<and> (\<forall>kvs d. JSON_parse e (res_text res) = Some (JObj kvs)
            \<and> map_of kvs ''detail'' = Some d \<and> truthy d
          \<longrightarrow> errorDetail_of e (res_text res) = d)
     \<and> (\<forall>kvs m. JSON_parse e (res_text res) = Some (JObj kvs)
            \<and> (map_of kvs ''detail'' = None
                 \<or> (\<exists>d. map_of kvs ''detail'' = Some d \<and> \<not> truthy d))
            \<and> map_of kvs ''message'' = Some m \<and> truthy m
          \<longrightarrow> errorDetail_of e (res_text res) = m)
     \<and> (\<forall>kvs. JSON_parse e (res_text res) = Some (JObj kvs)
            \<and> (map_of kvs ''detail'' = None
                 \<or> (\<exists>d. map_of kvs ''detail'' = Some d \<and> \<not> truthy d))
            \<and> (map_of kvs ''message'' = None
                 \<or> (\<exists>m. map_of kvs ''message'' = Some m \<and> \<not> truthy m))
          \<longrightarrow> errorDetail_of e (res_text res) = JStr (res_text res))
     \<and> (\<forall>v. JSON_parse e (res_text res) = Some v \<and> (\<forall>kvs. v \<noteq> JObj kvs)
          \<longrightarrow> errorDetail_of e (res_text res) = JStr (res_text res))
     \<and> (JSON_parse e (res_text res) = None
          \<longrightarrow> errorDetail_of e (res_text res) = JStr (res_text res))"
proof (intro conjI allI impI)
  assume "status_accepted (res_status res)"
  with assms show "snd (handler e req path)
       = \<lparr>status = res_status res,
          body = Json (JObj [(''error'', errorDetail_of e (res_text res))])\<rparr>"
    by (rule handler_backend_error_accepted)
next
  assume "\<not> status_accepted (res_status res)"
  with assms show "snd (handler e req path)
       = \<lparr>status = 500,
          body = Json (JObj [(''message'', JStr ''Proxy error occurred''),
                             (''error'', JStr (status_error e (res_status res)))])\<rparr>"
    by (rule handler_backend_error_refused)
next
  fix kvs d
  assume "JSON_parse e (res_text res) = Some (JObj kvs)
            \<and> map_of kvs ''detail'' = Some d \<and> truthy d"
  then show "errorDetail_of e (res_text res) = d"
    using detail_from_detail by blast
next
  fix kvs m
  assume "JSON_parse e (res_text res) = Some (JObj kvs)
            \<and> (map_of kvs ''detail'' = None
                 \<or> (\<exists>d. map_of kvs ''detail'' = Some d \<and> \<not> truthy d))
            \<and> map_of kvs ''message'' = Some m \<and> truthy m"
  then show "errorDetail_of e (res_text res) = m"
    using detail_from_message [of e "res_text res" kvs m] by blast
next
  fix kvs
  assume "JSON_parse e (res_text res) = Some (JObj kvs)
            \<and> (map_of kvs ''detail'' = None
                 \<or> (\<exists>d. map_of kvs ''detail'' = Some d \<and> \<not> truthy d))
            \<and> (map_of kvs ''message'' = None
                 \<or> (\<exists>m. map_of kvs ''message'' = Some m \<and> \<not> truthy m))"
  then show "errorDetail_of e (res_text res) = JStr (res_text res)"
    using detail_from_text [of e "res_text res" kvs] by blast
next
  fix v
  assume "JSON_parse e (res_text res) = Some v \<and> (\<forall>kvs. v \<noteq> JObj kvs)"
  then show "errorDetail_of e (res_text res) = JStr (res_text res)"
    using detail_not_object [of e "res_text res" v] by blast
next
  assume "JSON_parse e (res_text res) = None"
  then show "errorDetail_of e (res_text res) = JStr (res_text res)"
    by (rule detail_unparsed)
qed

text \<open>
  The amended claim C5 at replies with status 404 and the bodies \<^verbatim>\<open>{"detail":"X"}\<close>
  (a truthy detail), \<^verbatim>\<open>{"detail":"","message":"M"}\<close> (an empty detail and a message)
  and \<^verbatim>\<open>{"error":"E"}\<close> (neither), and at a reply with status 304.
\<close>

theorem backend_error_status_preserved_witness:
  \<open>snd (handler (sample_env None (Some ''http://backend'') None
                   (FetchReturns (error_reply 404)))
                get_request [''items'', ''9''])
     = \<lparr>status = 404, body = Json (JObj [(''error'', JStr ''X'')])\<rparr>
   \<and> snd (handler (sample_env None (Some ''http://backend'') None
                   (FetchReturns (message_reply 404)))
                get_request [''items'', ''9''])
     = \<lparr>status = 404, body = Json (JObj [(''error'', JStr ''M'')])\<rparr>
   \<and> snd (handler (sample_env None (Some ''http://backend'') None
                   (FetchReturns (other_reply 404)))
                get_request [''items'', ''9''])
     = \<lparr>status = 404, body = Json (JObj [(''error'', JStr ''{"error":"E"}'')])\<rparr>
   \<and> snd (handler (sample_env None (Some ''http://backend'') None
                   (FetchReturns (error_reply 304)))
                get_request [''items'', ''9''])
     = \<lparr>status = 500,
        body = Json (JObj [(''message'', JStr ''Proxy error occurred''),
                           (''error'', JStr ''Invalid response status code'')])\<rparr>\<close>
proof -
  let ?e = "sample_env None (Some ''http://backend'') None (FetchReturns (error_reply 404))"
  let ?g = "sample_env None (Some ''http://backend'') None (FetchReturns (message_reply 404))"
  let ?f = "sample_env None (Some ''http://backend'') None (FetchReturns (other_reply 404))"
  let ?n = "sample_env None (Some ''http://backend'') None (FetchReturns (error_reply 304))"
  have h1: "baseUrl ?e = Some ''http://backend''" "baseUrl ?g = Some ''http://backend''"
    "baseUrl ?f = Some ''http://backend''" "baseUrl ?n = Some ''http://backend''"
    by (simp_all add: sample_eval)
  have h2: "fetch ?e (outbound_request ?e get_request ''http://backend''
              (rewritePath [''items'', ''9''])) = FetchReturns (error_reply 404)"
    "fetch ?g (outbound_request ?g get_request ''http://backend''
              (rewritePath [''items'', ''9''])) = FetchReturns (message_reply 404)"
    "fetch ?f (outbound_request ?f get_request ''http://backend''
              (rewritePath [''items'', ''9''])) = FetchReturns (other_reply 404)"
    "fetch ?n (outbound_request ?n get_request ''http://backend''
              (rewritePath [''items'', ''9''])) = FetchReturns (error_reply 304)"
    by (simp_all add: sample_env_def)
  have h3: "\<not> ok (error_reply 404)" "\<not> ok (message_reply 404)" "\<not> ok (other_reply 404)"
    "\<not> ok (error_reply 304)"
    by (simp_all add: sample_eval)
  have h4: "\<not> includes_str (rewritePath [''items'', ''9'']) ''/chat''"
    by (simp add: rewrite_eval)
  have h5: "status_accepted (res_status (error_reply 404))"
    "status_accepted (res_status (message_reply 404))"
    "status_accepted (res_status (other_reply 404))"
    "\<not> status_accepted (res_status (error_reply 304))"
    by (simp_all add: status_accepted_def sample_eval)
  have p: "JSON_parse ?e (res_text (error_reply 404)) = Some (JObj [(''detail'', JStr ''X'')])
     \<and> map_of [(''detail'', JStr ''X'')] ''detail'' = Some (JStr ''X'') \<and> truthy (JStr ''X'')"
    by (simp add: sample_eval)
  have o: "JSON_parse ?g (res_text (message_reply 404))
       = Some (JObj [(''detail'', JStr []), (''message'', JStr ''M'')])
     \<and> (map_of [(''detail'', JStr []), (''message'', JStr ''M'')] ''detail'' = None
          \<or> (\<exists>d. map_of [(''detail'', JStr []), (''message'', JStr ''M'')] ''detail'' = Some d
                \<and> \<not> truthy d))
     \<and> map_of [(''detail'', JStr []), (''message'', JStr ''M'')] ''message'' = Some (JStr ''M'')
     \<and> truthy (JStr ''M'')"
    by (simp add: sample_eval)
  have q: "JSON_parse ?f (res_text (other_reply 404)) = Some (JObj [(''error'', JStr ''E'')])
     \<and> (map_of [(''error'', JStr ''E'')] ''detail'' = None
          \<or> (\<exists>d. map_of [(''error'', JStr ''E'')] ''detail'' = Some d \<and> \<not> truthy d))
     \<and> (map_of [(''error'', JStr ''E'')] ''message'' = None
          \<or> (\<exists>m. map_of [(''error'', JStr ''E'')] ''message'' = Some m \<and> \<not> truthy m))"
    by (simp add: sample_eval)
  note r = backend_error_status_preserved [OF h1(1) h2(1) h3(1) h4]
  note u = backend_error_status_preserved [OF h1(2) h2(2) h3(2) h4]
  note t = backend_error_status_preserved [OF h1(3) h2(3) h3(3) h4]
  note w = backend_error_status_preserved [OF h1(4) h2(4) h3(4) h4]
  have d: "errorDetail_of ?e (res_text (error_reply 404)) = JStr ''X''"
    using conjunct1 [OF conjunct2 [OF conjunct2 [OF r]]] p by blast
  have k: "errorDetail_of ?g (res_text (message_reply 404)) = JStr ''M''"
    using conjunct1 [OF conjunct2 [OF conjunct2 [OF conjunct2 [OF u]]]] o by blast
  have c: "errorDetail_of ?f (res_text (other_reply 404)) = JStr (res_text (other_reply 404))"
    using conjunct1 [OF conjunct2 [OF conjunct2 [OF conjunct2 [OF conjunct2 [OF t]]]]] q
    by blast
  have 1: "snd (handler ?e get_request [''items'', ''9''])
     = \<lparr>status = 404, body = Json (JObj [(''error'', JStr ''X'')])\<rparr>"
    unfolding mp [OF conjunct1 [OF r] h5(1)] d by (simp add: error_reply_def)
  have 2: "snd (handler ?g get_request [''items'', ''9''])
     = \<lparr>status = 404, body = Json (JObj [(''error'', JStr ''M'')])\<rparr>"
    unfolding mp [OF conjunct1 [OF u] h5(2)] k by (simp add: message_reply_def)
  have 3: \<open>snd (handler ?f get_request [''items'', ''9''])
     = \<lparr>status = 404, body = Json (JObj [(''error'', JStr ''{"error":"E"}'')])\<rparr>\<close>
    unfolding mp [OF conjunct1 [OF t] h5(3)] c by (simp add: other_reply_def)
  have 4: "snd (handler ?n get_request [''items'', ''9''])
     = \<lparr>status = 500,
        body = Json (JObj [(''message'', JStr ''Proxy error occurred''),
                           (''error'', JStr ''Invalid response status code'')])\<rparr>"
    unfolding mp [OF conjunct1 [OF conjunct2 [OF w]] h5(4)]
    by (simp add: sample_env_def)
  from 1 2 3 4 show ?thesis by blast
qed

text \<open>
  Claim C6, as stated, fails: in non-production mode without an origin, the path
  \<^verbatim>\<open>/tasks/chat\<close> is rewritten to \<^verbatim>\<open>/api/v1/tasks/chat\<close>, which contains
  \<^verbatim>\<open>/chat\<close>, yet the test for \<^verbatim>\<open>/tasks\<close> comes first and the body is the sample
  task list, with no \<^verbatim>\<open>response\<close> member.
\<close>

theorem chat_fallback_counterexample:
  "baseUrl (sample_env None None None (FetchThrows ''down'')) = None
   \<and> isDevelopment (sample_env None None None (FetchThrows ''down''))
   \<and> includes_str (rewritePath [''tasks'', ''chat'']) ''/chat''
   \<and> member (body (snd (handler (sample_env None None None (FetchThrows ''down''))
                       post_request [''tasks'', ''chat'']))) ''response'' = None"
proof -
  let ?e = "sample_env None None None (FetchThrows ''down'')"
  have b: "baseUrl ?e = None" by (simp add: sample_eval)
  have d: "isDevelopment ?e" by (simp add: sample_eval)
  have p: "rewritePath [''tasks'', ''chat''] = ''/api/v1/tasks/chat''"
    by (simp add: rewrite_eval)
  have c: "includes_str (rewritePath [''tasks'', ''chat'']) ''/chat''"
    unfolding p by (simp add: startsWith_def)
  have t: "includes_str (rewritePath [''tasks'', ''chat'']) ''/tasks''"
    unfolding p by (simp add: startsWith_def)
  have "snd (handler ?e post_request [''tasks'', ''chat''])
      = \<lparr>status = 200, body = Json (JObj [(''items'', mockTasks ?e)])\<rparr>"
    using d t by (simp add: handler_of_try handler_no_origin [OF b])
  then have "member (body (snd (handler ?e post_request [''tasks'', ''chat'']))) ''response'' = None"
    by (simp add: member_def)
  with b d c show ?thesis by blast
qed

lemma fallback_texts:
  "not_configured_text \<noteq> []" "trouble_connecting_text \<noteq> []"
  "includes_str trouble_connecting_text ''trouble connecting''"
  by (simp_all add: not_configured_text_def trouble_connecting_text_def startsWith_def)

text \<open>
  Claim C6, amended. On a path that contains \<^verbatim>\<open>/chat\<close> and that, in non-production
  mode, does not contain \<^verbatim>\<open>/tasks\<close>: without an origin in non-production mode, and
  with an origin whose fetch throws, the handler answers 200 with the five members of
  the synthetic chat payload; the \<^verbatim>\<open>response\<close> text is not empty and, when the fetch
  threw, it is the one about trouble connecting.
\<close>

theorem chat_fallback_when_unreachable:
  assumes "includes_str (rewritePath path) ''/chat''"
    and "\<not> (isDevelopment e \<and> includes_str (rewritePath path) ''/tasks'')"
  shows "(baseUrl e = None \<and> isDevelopment e
            \<longrightarrow> snd (handler e req path)
                = \<lparr>status = 200, body = Json (JObj [(''conversation_id'', JNum ''1''),
                              (''response'', JStr not_configured_text),
                              (''has_tools_executed'', JBool False),
                              (''tool_results'', JArr []),
                              (''message_id'', JNull)])\<rparr>)
     \<and> (\<forall>url msg. baseUrl e = Some url
            \<and> fetch e (outbound_request e req url (rewritePath path)) = FetchThrows msg
            \<longrightarrow> snd (handler e req path)
                = \<lparr>status = 200, body = Json (JObj [(''conversation_id'', JNum ''1''),
                              (''response'', JStr trouble_connecting_text),
                              (''has_tools_executed'', JBool False),
                              (''tool_results'', JArr []),
                              (''message_id'', JNull)])\<rparr>)
     \<and> not_configured_text \<noteq> [] \<and> trouble_connecting_text \<noteq> []
     \<and> includes_str trouble_connecting_text ''trouble connecting''"
proof -
  have 1: "snd (handler e req path)
      = \<lparr>status = 200, body = Json (chat_payload not_configured_text)\<rparr>"
    if "baseUrl e = None" and "isDevelopment e"
    using assms that by (simp add: handler_of_try handler_no_origin)
  have 2: "snd (handler e req path)
      = \<lparr>status = 200, body = Json (chat_payload trouble_connecting_text)\<rparr>"
    if "baseUrl e = Some url"
      and "fetch e (outbound_request e req url (rewritePath path)) = FetchThrows msg"
    for url msg
    using assms handler_fetch_throws [OF that] by (auto intro: handler_of_try)
  from 1 2 fallback_texts show ?thesis unfolding chat_payload_def by blast
qed

text \<open>The amended claim C6 at two inputs, one for each way of not reaching the backend.\<close>

theorem chat_fallback_when_unreachable_witness:
  "snd (handler (sample_env None None None (FetchThrows ''down'')) post_request [''7'', ''chat''])
     = \<lparr>status = 200, body = Json (JObj [(''conversation_id'', JNum ''1''),
                              (''response'', JStr not_configured_text),
                              (''has_tools_executed'', JBool False),
                              (''tool_results'', JArr []),
                              (''message_id'', JNull)])\<rparr>
   \<and> snd (handler (sample_env (Some ''production'') (Some ''http://backend'') None
                     (FetchThrows ''down''))
                  post_request [''tasks'', ''chat''])
     = \<lparr>status = 200, body = Json (JObj [(''conversation_id'', JNum ''1''),
                              (''response'', JStr trouble_connecting_text),
                              (''has_tools_executed'', JBool False),
                              (''tool_results'', JArr []),
                              (''message_id'', JNull)])\<rparr>"
proof -
  let ?dev = "sample_env None None None (FetchThrows ''down'')"
  let ?prod = "sample_env (Some ''production'') (Some ''http://backend'') None
                 (FetchThrows ''down'')"
  have p1: "rewritePath [''7'', ''chat''] = ''/api/v1/7/chat''" by (simp add: rewrite_eval)
  have c1: "includes_str (rewritePath [''7'', ''chat'']) ''/chat''"
    unfolding p1 by (simp add: startsWith_def)
  have t1: "\<not> (isDevelopment ?dev \<and> includes_str (rewritePath [''7'', ''chat'']) ''/tasks'')"
    unfolding p1 by (simp add: startsWith_def)
  have b1: "baseUrl ?dev = None \<and> isDevelopment ?dev" by (simp add: sample_eval)
  have p2: "rewritePath [''tasks'', ''chat''] = ''/api/v1/tasks/chat''"
    by (simp add: rewrite_eval)
  have c2: "includes_str (rewritePath [''tasks'', ''chat'']) ''/chat''"
    unfolding p2 by (simp add: startsWith_def)
  have t2: "\<not> (isDevelopment ?prod \<and> includes_str (rewritePath [''tasks'', ''chat'']) ''/tasks'')"
    by (simp add: sample_eval)
  have b2: "baseUrl ?prod = Some ''http://backend''
     \<and> fetch ?prod (outbound_request ?prod post_request ''http://backend''
          (rewritePath [''tasks'', ''chat''])) = FetchThrows ''down''"
    by (simp add: sample_eval)
  show ?thesis
    using chat_fallback_when_unreachable [OF c1 t1, of post_request] b1
      chat_fallback_when_unreachable [OF c2 t2, of post_request] b2
    by blast
qed

lemma baseUrl_None_iff:
  "baseUrl e = None \<longleftrightarrow>
     (API_BASE_URL e = None \<or> API_BASE_URL e = Some [])
     \<and> (NEXT_PUBLIC_API_BASE_URL e = None \<or> NEXT_PUBLIC_API_BASE_URL e = Some [])"
  by (auto simp: baseUrl_def split: option.splits)

text \<open>
  Claim C7. Without an origin no error is thrown inside the handler and a response is
  returned: the structured 503 for a path that contains neither \<^verbatim>\<open>/tasks\<close> nor
  \<^verbatim>\<open>/chat\<close> and for every path in production mode; the 200 synthetic payloads for task
  and chat paths in non-production mode only.
\<close>

theorem no_origin_structured_response:
  assumes "baseUrl e = None"
  shows "\<exists>resp. snd (handler_try e req path) = Inr resp \<and> snd (handler e req path) = resp
     \<and> (\<not> includes_str (rewritePath path) ''/tasks'' \<and> \<not> includes_str (rewritePath path) ''/chat''
          \<longrightarrow> resp = \<lparr>status = 503,
                        body = Json (JObj [(''error'', JStr ''API backend not configured'')])\<rparr>)
     \<and> (\<not> isDevelopment e
          \<longrightarrow> resp = \<lparr>status = 503,
                        body = Json (JObj [(''error'', JStr ''API backend not configured'')])\<rparr>)
     \<and> (isDevelopment e \<and> includes_str (rewritePath path) ''/tasks''
          \<longrightarrow> resp = \<lparr>status = 200, body = Json (JObj [(''items'', mockTasks e)])\<rparr>)
     \<and> (isDevelopment e \<and> \<not> includes_str (rewritePath path) ''/tasks''
            \<and> includes_str (rewritePath path) ''/chat''
          \<longrightarrow> resp = \<lparr>status = 200, body = Json (chat_payload not_configured_text)\<rparr>)"
proof -
  obtain resp where r: "snd (handler_try e req path) = Inr resp"
    by (simp add: handler_no_origin [OF assms])
  then have "snd (handler e req path) = resp" by (rule handler_of_try)
  moreover from r have "resp =
     (if isDevelopment e \<and> includes_str (rewritePath path) ''/tasks''
      then \<lparr>status = 200, body = Json (JObj [(''items'', mockTasks e)])\<rparr>
      else if isDevelopment e \<and> includes_str (rewritePath path) ''/chat''
      then \<lparr>status = 200, body = Json (chat_payload not_configured_text)\<rparr>
      else \<lparr>status = 503,
            body = Json (JObj [(''error'', JStr ''API backend not configured'')])\<rparr>)"
    by (simp add: handler_no_origin [OF assms])
  ultimately show ?thesis using r by auto
qed

text \<open>Claim C7 at an ordinary path, at a task path in production mode, and at a task
  path in non-production mode.\<close>

theorem no_origin_structured_response_witness:
  "snd (handler (sample_env None None None (FetchThrows ''down'')) get_request [''users''])
     = \<lparr>status = 503, body = Json (JObj [(''error'', JStr ''API backend not configured'')])\<rparr>
   \<and> snd (handler (sample_env (Some ''production'') None None (FetchThrows ''down''))
            get_request [''tasks''])
     = \<lparr>status = 503, body = Json (JObj [(''error'', JStr ''API backend not configured'')])\<rparr>
   \<and> status (snd (handler (sample_env None None None (FetchThrows ''down''))
            get_request [''tasks''])) = 200"
proof -
  let ?dev = "sample_env None None None (FetchThrows ''down'')"
  let ?prod = "sample_env (Some ''production'') None None (FetchThrows ''down'')"
  have b1: "baseUrl ?dev = None" by (simp add: sample_eval)
  have b2: "baseUrl ?prod = None" by (simp add: sample_eval)
  have d1: "isDevelopment ?dev" by (simp add: sample_eval)
  have d2: "\<not> isDevelopment ?prod" by (simp add: sample_eval)
  have u: "\<not> includes_str (rewritePath [''users'']) ''/tasks''
     \<and> \<not> includes_str (rewritePath [''users'']) ''/chat''"
    by (simp add: rewrite_eval)
  have t: "includes_str (rewritePath [''tasks'']) ''/tasks''"
    by (simp add: rewrite_eval)
  have 1: "snd (handler ?dev get_request [''users''])
     = \<lparr>status = 503, body = Json (JObj [(''error'', JStr ''API backend not configured'')])\<rparr>"
    using no_origin_structured_response [OF b1, of get_request "[''users'']"] u by blast
  have 2: "snd (handler ?prod get_request [''tasks''])
     = \<lparr>status = 503, body = Json (JObj [(''error'', JStr ''API backend not configured'')])\<rparr>"
    using no_origin_structured_response [OF b2, of get_request "[''tasks'']"] d2 by blast
  have 3: "status (snd (handler ?dev get_request [''tasks''])) = 200"
    using no_origin_structured_response [OF b1, of get_request "[''tasks'']"] d1 t by auto
  from 1 2 3 show ?thesis by blast
qed



text \<open>
  Claim C9. The session is looked up exactly when the rewritten path does not contain
  \<^verbatim>\<open>/auth\<close>. With an origin configured the handler sends one request, to the origin
  followed by the rewritten path. On a path that contains \<^verbatim>\<open>/auth\<close> that request has
  no \<^verbatim>\<open>Authorization\<close> header. On any other path it carries \<^verbatim>\<open>Bearer\<close> and the
  session token when there is one (a non-empty string, as \<^verbatim>\<open>||\<close> and \<^verbatim>\<open>if\<close> read it);
  without one it carries no such header in production mode and the placeholder
  \<^verbatim>\<open>mock-token\<close> otherwise.
\<close>

theorem authorization_header_rules:
  "(SessionLookup \<in> set (fst (handler e req path))
      \<longleftrightarrow> \<not> includes_str (rewritePath path) ''/auth'')
   \<and> (\<forall>url. baseUrl e = Some url \<longrightarrow>
        (\<exists>out. Fetch out \<in> set (fst (handler e req path))
           \<and> (\<forall>other. Fetch other \<in> set (fst (handler e req path)) \<longrightarrow> other = out)
           \<and> out_url out = url @ rewritePath path
           \<and> (includes_str (rewritePath path) ''/auth''
                \<longrightarrow> map_of (out_headers out) ''Authorization'' = None)
           \<and> (\<not> includes_str (rewritePath path) ''/auth'' \<longrightarrow>
                (\<forall>t. accessToken e = Some t \<and> t \<noteq> []
                   \<longrightarrow> map_of (out_headers out) ''Authorization'' = Some (''Bearer '' @ t))
                \<and> ((accessToken e = None \<or> accessToken e = Some []) \<and> \<not> isDevelopment e
                   \<longrightarrow> map_of (out_headers out) ''Authorization'' = None)
                \<and> ((accessToken e = None \<or> accessToken e = Some []) \<and> isDevelopment e
                   \<longrightarrow> map_of (out_headers out) ''Authorization''
                       = Some ''Bearer mock-token''))))"
proof (intro conjI allI impI)
  show "SessionLookup \<in> set (fst (handler e req path))
      \<longleftrightarrow> \<not> includes_str (rewritePath path) ''/auth''"
    by (auto simp: handler_events attach_auth_lookup split: option.splits)
next
  fix url assume b: "baseUrl e = Some url"
  let ?out = "outbound_request e req url (rewritePath path)"
  have sent: "Fetch ?out \<in> set (fst (handler e req path))"
    using b by (rule fetch_is_sent)
  have only: "other = ?out" if "Fetch other \<in> set (fst (handler e req path))" for other
    using fetch_event [OF that] b by auto
  have u: "out_url ?out = url @ rewritePath path"
    by (simp add: outbound_request_def)
  have h: "map_of (out_headers ?out) ''Authorization'' =
     (if includes_str (rewritePath path) ''/auth'' then None
      else map_option (\<lambda>t. ''Bearer '' @ t) (session_token e))"
    by (simp add: outbound_request_def attach_auth_headers)
  have p: "map_of (out_headers ?out) ''Authorization'' = None"
    if "includes_str (rewritePath path) ''/auth''"
    using h that by simp
  have t: "map_of (out_headers ?out) ''Authorization'' = Some (''Bearer '' @ t)"
    if "\<not> includes_str (rewritePath path) ''/auth''" and "accessToken e = Some t \<and> t \<noteq> []"
    for t
    using h that by (simp add: session_token_def)
  have n: "map_of (out_headers ?out) ''Authorization'' = None"
    if "\<not> includes_str (rewritePath path) ''/auth''"
      and "(accessToken e = None \<or> accessToken e = Some []) \<and> \<not> isDevelopment e"
    using h that by (auto simp: session_token_def)
  have m: "map_of (out_headers ?out) ''Authorization'' = Some ''Bearer mock-token''"
    if "\<not> includes_str (rewritePath path) ''/auth''"
      and "(accessToken e = None \<or> accessToken e = Some []) \<and> isDevelopment e"
    using h that by (auto simp: session_token_def)
  show "\<exists>out. Fetch out \<in> set (fst (handler e req path))
           \<and> (\<forall>other. Fetch other \<in> set (fst (handler e req path)) \<longrightarrow> other = out)
           \<and> out_url out = url @ rewritePath path
           \<and> (includes_str (rewritePath path) ''/auth''
                \<longrightarrow> map_of (out_headers out) ''Authorization'' = None)
           \<and> (\<not> includes_str (rewritePath path) ''/auth'' \<longrightarrow>
                (\<forall>t. accessToken e = Some t \<and> t \<noteq> []
                   \<longrightarrow> map_of (out_headers out) ''Authorization'' = Some (''Bearer '' @ t))
                \<and> ((accessToken e = None \<or> accessToken e = Some []) \<and> \<not> isDevelopment e
                   \<longrightarrow> map_of (out_headers out) ''Authorization'' = None)
                \<and> ((accessToken e = None \<or> accessToken e = Some []) \<and> isDevelopment e
                   \<longrightarrow> map_of (out_headers out) ''Authorization''
                       = Some ''Bearer mock-token''))"
  proof (rule exI [of _ ?out], intro conjI allI impI)
    show "Fetch ?out \<in> set (fst (handler e req path))" by (rule sent)
  next
    fix other assume "Fetch other \<in> set (fst (handler e req path))"
    then show "other = ?out" by (rule only)
  next
    show "out_url ?out = url @ rewritePath path" by (rule u)
  next
    assume "includes_str (rewritePath path) ''/auth''"
    then show "map_of (out_headers ?out) ''Authorization'' = None" by (rule p)
  next
    fix t assume "\<not> includes_str (rewritePath path) ''/auth''"
      and "accessToken e = Some t \<and> t \<noteq> []"
    then show "map_of (out_headers ?out) ''Authorization'' = Some (''Bearer '' @ t)"
      by (rule t)
  next
    assume "\<not> includes_str (rewritePath path) ''/auth''"
      and "(accessToken e = None \<or> accessToken e = Some []) \<and> \<not> isDevelopment e"
    then show "map_of (out_headers ?out) ''Authorization'' = None" by (rule n)
  next
    assume "\<not> includes_str (rewritePath path) ''/auth''"
      and "(accessToken e = None \<or> accessToken e = Some []) \<and> isDevelopment e"
    then show "map_of (out_headers ?out) ''Authorization'' = Some ''Bearer mock-token''"
      by (rule m)
  qed
qed

text \<open>
  Claim C9 at four runs of the handler: a public path with a token, and a task path with
  a token, without one in production mode, and without one in non-production mode. Each
  run sends a request, whose header is as stated.
\<close>

theorem authorization_header_rules_witness:
  "SessionLookup \<notin> set (fst (handler
       (sample_env None (Some ''http://backend'') (Some ''tok'') (FetchThrows ''down''))
       post_request [''auth'', ''login'']))
   \<and> (\<exists>out. Fetch out \<in> set (fst (handler
          (sample_env None (Some ''http://backend'') (Some ''tok'') (FetchThrows ''down''))
          post_request [''auth'', ''login'']))
        \<and> out_url out = ''http://backend/api/v1/auth/login''
        \<and> map_of (out_headers out) ''Authorization'' = None)
   \<and> SessionLookup \<in> set (fst (handler
       (sample_env None (Some ''http://backend'') (Some ''tok'') (FetchThrows ''down''))
       get_request [''tasks'']))
   \<and> (\<exists>out. Fetch out \<in> set (fst (handler
          (sample_env None (Some ''http://backend'') (Some ''tok'') (FetchThrows ''down''))
          get_request [''tasks'']))
        \<and> out_url out = ''http://backend/api/v1/tasks''
        \<and> map_of (out_headers out) ''Authorization'' = Some ''Bearer tok'')
   \<and> (\<exists>out. Fetch out \<in> set (fst (handler
          (sample_env (Some ''production'') (Some ''http://backend'') None (FetchThrows ''down''))
          get_request [''tasks'']))
        \<and> map_of (out_headers out) ''Authorization'' = None)
   \<and> (\<exists>out. Fetch out \<in> set (fst (handler
          (sample_env None (Some ''http://backend'') None (FetchThrows ''down''))
          get_request [''tasks'']))
        \<and> map_of (out_headers out) ''Authorization'' = Some ''Bearer mock-token'')"
proof -
  let ?tok = "sample_env None (Some ''http://backend'') (Some ''tok'') (FetchThrows ''down'')"
  let ?prod = "sample_env (Some ''production'') (Some ''http://backend'') None
                 (FetchThrows ''down'')"
  let ?dev = "sample_env None (Some ''http://backend'') None (FetchThrows ''down'')"
  have b: "baseUrl ?tok = Some ''http://backend''" "baseUrl ?prod = Some ''http://backend''"
    "baseUrl ?dev = Some ''http://backend''"
    by (simp_all add: sample_eval)
  have pa: "rewritePath [''auth'', ''login''] = ''/api/v1/auth/login''"
    by (simp add: rewrite_eval)
  have pt: "rewritePath [''tasks''] = ''/api/v1/tasks''"
    by (simp add: rewrite_eval)
  have a: "includes_str (rewritePath [''auth'', ''login'']) ''/auth''"
    unfolding pa by (simp add: startsWith_def)
  have t: "\<not> includes_str (rewritePath [''tasks'']) ''/auth''"
    unfolding pt by (simp add: startsWith_def)
  have k: "accessToken ?tok = Some ''tok'' \<and> ''tok'' \<noteq> []"
    "(accessToken ?prod = None \<or> accessToken ?prod = Some []) \<and> \<not> isDevelopment ?prod"
    "(accessToken ?dev = None \<or> accessToken ?dev = Some []) \<and> isDevelopment ?dev"
    by (simp_all add: sample_eval)
  note ra = authorization_header_rules [of ?tok post_request "[''auth'', ''login'']"]
  note rt = authorization_header_rules [of ?tok get_request "[''tasks'']"]
  note rp = authorization_header_rules [of ?prod get_request "[''tasks'']"]
  note rd = authorization_header_rules [of ?dev get_request "[''tasks'']"]
  have 1: "SessionLookup \<notin> set (fst (handler ?tok post_request [''auth'', ''login'']))"
    using conjunct1 [OF ra] a by blast
  have 2: "\<exists>out. Fetch out \<in> set (fst (handler ?tok post_request [''auth'', ''login'']))
        \<and> out_url out = ''http://backend'' @ rewritePath [''auth'', ''login'']
        \<and> map_of (out_headers out) ''Authorization'' = None"
    using conjunct2 [OF ra] b(1) a by blast
  have 3: "SessionLookup \<in> set (fst (handler ?tok get_request [''tasks'']))"
    using conjunct1 [OF rt] t by blast
  have 4: "\<exists>out. Fetch out \<in> set (fst (handler ?tok get_request [''tasks'']))
        \<and> out_url out = ''http://backend'' @ rewritePath [''tasks'']
        \<and> map_of (out_headers out) ''Authorization'' = Some (''Bearer '' @ ''tok'')"
    using conjunct2 [OF rt] b(1) t k(1) by blast
  have 5: "\<exists>out. Fetch out \<in> set (fst (handler ?prod get_request [''tasks'']))
        \<and> map_of (out_headers out) ''Authorization'' = None"
    using conjunct2 [OF rp] b(2) t k(2) by blast
  have 6: "\<exists>out. Fetch out \<in> set (fst (handler ?dev get_request [''tasks'']))
        \<and> map_of (out_headers out) ''Authorization'' = Some ''Bearer mock-token''"
    using conjunct2 [OF rd] b(3) t k(3) by blast
  have e2: "\<exists>out. Fetch out \<in> set (fst (handler ?tok post_request [''auth'', ''login'']))
        \<and> out_url out = ''http://backend/api/v1/auth/login''
        \<and> map_of (out_headers out) ''Authorization'' = None"
    using 2 unfolding pa by simp
  have e4: "\<exists>out. Fetch out \<in> set (fst (handler ?tok get_request [''tasks'']))
        \<and> out_url out = ''http://backend/api/v1/tasks''
        \<and> map_of (out_headers out) ''Authorization'' = Some ''Bearer tok''"
    using 4 unfolding pt by simp
  from 1 e2 3 e4 5 6 show ?thesis by blast
qed

end
